theory Spec2Isabelle
  imports Main
begin

section \<open>JavaScript values and the object store\<close>

text \<open>
  The reducer of \<^verbatim>\<open>features/device-selection\<close> works on plain JavaScript objects and
  compares them by reference, so objects live in a store and a value of object type is
  the address of its object. A symbol is identified by the number of the
  \<^verbatim>\<open>Symbol(...)\<close> call that made it; its description plays no part in equality.
  Numbers are the integral ones (the only number the program mentions is 13).
\<close>

type_synonym addr = nat

datatype symbol = Symbol nat string

datatype jsval =
    JUndefined
  | JNull
  | JBool bool
  | JNum int
  | JStr string
  | JSym symbol
  | JRef addr

text \<open>
  A property key is a string or a symbol; the strings that are array indices
  (\<^verbatim>\<open>"0"\<close>, \<^verbatim>\<open>"1"\<close>, ...) are kept apart as \<open>KIdx\<close>, so \<open>KStr\<close> holds the other
  strings. An object is the map of its own enumerable data properties.
\<close>

datatype pkey = KStr string | KIdx nat | KSym symbol

type_synonym obj = "pkey \<rightharpoonup> jsval"

record heap =
  objs :: "addr \<Rightarrow> obj"
  next_addr :: addr

datatype error = TypeError

text \<open>An object literal \<^verbatim>\<open>{ ... }\<close> takes the next unused address.\<close>

definition alloc :: "heap \<Rightarrow> obj \<Rightarrow> heap \<times> addr" where
  "alloc h ob =
     (h\<lparr>objs := (objs h)(next_addr h := ob), next_addr := Suc (next_addr h)\<rparr>, next_addr h)"

text \<open>
  \<^verbatim>\<open>a === b\<close>. Without NaN among the numbers, strict equality is equality of values:
  same primitive, same symbol, same address.
\<close>

definition strict_eq :: "jsval \<Rightarrow> jsval \<Rightarrow> bool" where
  "strict_eq a b = (a = b)"

text \<open>
  \<^verbatim>\<open>v.k\<close>. Reading a property of \<^verbatim>\<open>undefined\<close> or \<^verbatim>\<open>null\<close> throws a TypeError; of an
  object it gives the property, \<^verbatim>\<open>undefined\<close> when the object has none of that name; of
  any other primitive it gives \<^verbatim>\<open>undefined\<close> for the names the program reads
  (\<^verbatim>\<open>type\<close>, \<^verbatim>\<open>popupDialog\<close>), which no built-in prototype defines.
\<close>

fun get :: "heap \<Rightarrow> jsval \<Rightarrow> pkey \<Rightarrow> error + jsval" where
  "get h JUndefined k = Inl TypeError"
| "get h JNull k = Inl TypeError"
| "get h (JRef a) k = Inr (case objs h a k of None \<Rightarrow> JUndefined | Some v \<Rightarrow> v)"
| "get h v k = Inr JUndefined"

text \<open>
  The properties that the spread \<^verbatim>\<open>{ ...v }\<close> copies: those of an object, the
  characters of a string under their indices, and none for the other values.
\<close>

fun own_props :: "heap \<Rightarrow> jsval \<Rightarrow> obj" where
  "own_props h (JRef a) = objs h a"
| "own_props h (JStr s) =
     (\<lambda>k. case k of KIdx i \<Rightarrow> (if i < length s then Some (JStr [s ! i]) else None)
               | _ \<Rightarrow> None)"
| "own_props h v = Map.empty"

text \<open>A value is valid in a store when it is no address, or an address already handed out.\<close>

fun valid :: "heap \<Rightarrow> jsval \<Rightarrow> bool" where
  "valid h (JRef a) = (a < next_addr h)"
| "valid h v = True"

section \<open>The reducer of features/device-selection\<close>

text \<open>
  \<^verbatim>\<open>export const SET_DEVICE_SELECTION_POPUP = Symbol('SET_DEVICE_SELECTION_POPUP');\<close>
  The module makes the symbol once; it is given the number 0.
\<close>

definition SET_DEVICE_SELECTION_POPUP :: jsval where
  "SET_DEVICE_SELECTION_POPUP = JSym (Symbol 0 ''SET_DEVICE_SELECTION_POPUP'')"

text \<open>The default parameter \<^verbatim>\<open>state = {}\<close>: a new empty object when the argument is \<^verbatim>\<open>undefined\<close>.\<close>

definition default_state :: "heap \<Rightarrow> jsval \<Rightarrow> heap \<times> jsval" where
  "default_state h state =
     (if state = JUndefined then (case alloc h Map.empty of (h', a) \<Rightarrow> (h', JRef a))
      else (h, state))"

text \<open>
  \<^verbatim>\<open>
  (state = {}, action) => {
      if (action.type === SET_DEVICE_SELECTION_POPUP) {
          return { ...state, popupDialog: action.popupDialog };
      }
      return state;
  }
  \<close>
\<close>

definition reducer :: "heap \<Rightarrow> jsval \<Rightarrow> jsval \<Rightarrow> error + (heap \<times> jsval)" where
  "reducer h0 state0 action =
     (case default_state h0 state0 of (h, state) \<Rightarrow>
        (case get h action (KStr ''type'') of
           Inl e \<Rightarrow> Inl e
         | Inr ty \<Rightarrow>
             if strict_eq ty SET_DEVICE_SELECTION_POPUP then
               (case get h action (KStr ''popupDialog'') of
                  Inl e \<Rightarrow> Inl e
                | Inr pd \<Rightarrow>
                    (case alloc h ((own_props h state)(KStr ''popupDialog'' \<mapsto> pd)) of
                       (h', a) \<Rightarrow> Inr (h', JRef a)))
             else Inr (h, state)))"

text \<open>Stores used as concrete inputs.\<close>

definition empty_heap :: heap where
  "empty_heap = \<lparr>objs = (\<lambda>a. Map.empty), next_addr = 0\<rparr>"

text \<open>
  Address 0: the state \<^verbatim>\<open>{ other: true }\<close>; address 1: a popup object; address 2: the
  action \<^verbatim>\<open>{ type: SET_DEVICE_SELECTION_POPUP, popupDialog: <1> }\<close>; address 3: the action
  \<^verbatim>\<open>{ type: 'SET_DEVICE_SELECTION_POPUP', popupDialog: <1> }\<close>, its type the string;
  address 4: the action \<^verbatim>\<open>{ popupDialog: <1> }\<close> with no type; address 5: the action
  \<^verbatim>\<open>{ type: 'SOME_OTHER_ACTION' }\<close>.
\<close>

definition heap1 :: heap where
  "heap1 = \<lparr>objs = (\<lambda>a. Map.empty)
       (0 := [KStr ''other'' \<mapsto> JBool True],
        1 := Map.empty,
        2 := [KStr ''type'' \<mapsto> SET_DEVICE_SELECTION_POPUP, KStr ''popupDialog'' \<mapsto> JRef 1],
        3 := [KStr ''type'' \<mapsto> JStr ''SET_DEVICE_SELECTION_POPUP'',
              KStr ''popupDialog'' \<mapsto> JRef 1],
        4 := [KStr ''popupDialog'' \<mapsto> JRef 1],
        5 := [KStr ''type'' \<mapsto> JStr ''SOME_OTHER_ACTION'']),
     next_addr = 6\<rparr>"

section \<open>The document as the dialog sees it\<close>

text \<open>
  An element has an identity, an \<^verbatim>\<open>id\<close> attribute (or none), a flag telling whether
  \<^verbatim>\<open>focus()\<close> can move the focus to it, and its child elements in document order.
\<close>

type_synonym node = nat

datatype element =
  Element (node_of: node) (id_attr: "string option") (focusable: bool)
    (child_elements: "element list")

text \<open>The descendants of an element in document order, the element itself left out.\<close>

fun descendants :: "element \<Rightarrow> element list" where
  "descendants (Element n i f cs) = concat (map (\<lambda>c. c # descendants c) cs)"

text \<open>
  Each dialog instance is known by a number; the function \<^verbatim>\<open>this._onKeyDown\<close> that the
  constructor binds once is the listener of that instance, so the same reference is
  given to \<^verbatim>\<open>addEventListener\<close> and to \<^verbatim>\<open>removeEventListener\<close>.
\<close>

type_synonym inst = nat

text \<open>
  The methods \<^verbatim>\<open>_onSubmit\<close> and \<^verbatim>\<open>_onCancel\<close> of AbstractDialog are outside the
  component; what is recorded of them is that they were called, and for which instance.
\<close>

datatype inherited_call = Called_onSubmit inst | Called_onCancel inst

record world =
  activeElement :: "node option"
  keydown_listeners :: "inst list"
  calls :: "inherited_call list"

text \<open>\<^verbatim>\<open>el.contains(document.activeElement)\<close>: the element itself or one of its descendants.\<close>

definition contains :: "element \<Rightarrow> node option \<Rightarrow> bool" where
  "contains el other =
     (case other of None \<Rightarrow> False
      | Some n \<Rightarrow> n \<in> set (map node_of (el # descendants el)))"

text \<open>
  \<^verbatim>\<open>el.querySelector(`[id=${ident}]`)\<close>: the first descendant in document order whose
  \<^verbatim>\<open>id\<close> attribute is \<open>ident\<close>, or \<^verbatim>\<open>null\<close>.
\<close>

definition querySelector :: "element \<Rightarrow> string \<Rightarrow> element option" where
  "querySelector el ident = find (\<lambda>e. id_attr e = Some ident) (descendants el)"

text \<open>\<^verbatim>\<open>b.focus()\<close>\<close>

definition focus :: "element \<Rightarrow> world \<Rightarrow> world" where
  "focus b w = (if focusable b then w\<lparr>activeElement := Some (node_of b)\<rparr> else w)"

text \<open>
  \<^verbatim>\<open>document.addEventListener('keydown', l)\<close> appends the listener unless it is already
  registered; \<^verbatim>\<open>document.removeEventListener('keydown', l)\<close> takes it out.
\<close>

definition addEventListener :: "inst \<Rightarrow> world \<Rightarrow> world" where
  "addEventListener l w =
     (if l \<in> set (keydown_listeners w) then w
      else w\<lparr>keydown_listeners := keydown_listeners w @ [l]\<rparr>)"

definition removeEventListener :: "inst \<Rightarrow> world \<Rightarrow> world" where
  "removeEventListener l w = w\<lparr>keydown_listeners := remove1 l (keydown_listeners w)\<rparr>"

section \<open>The Dialog component\<close>

record dialog_props =
  okDisabled :: bool
  cancelDisabled :: bool
  isModal :: bool
  cancelTitleKey :: "string option"
  okTitleKey :: "string option"
  titleKey :: "string option"
  titleString :: "string option"
  width :: "string option"
  t :: "string option \<Rightarrow> string"

record dialog =
  inst_of :: inst
  props :: dialog_props
  dialogElement :: "element option"

record keyboard_event =
  key :: jsval
  keyCode :: jsval

definition CANCEL_BUTTON_ID :: string where
  "CANCEL_BUTTON_ID = ''modal-dialog-cancel-button''"

definition OK_BUTTON_ID :: string where
  "OK_BUTTON_ID = ''modal-dialog-ok-button''"

text \<open>
  Modelled from the spec: \<^verbatim>\<open>AbstractDialog._onSubmit\<close>, inherited and not part of the
  sources at hand. The spec says that submit delegates to an externally supplied submit
  handler; the call is recorded. The method is given the number of \<^verbatim>\<open>this\<close>.
\<close>

definition onSubmit :: "inst \<Rightarrow> world \<Rightarrow> world" where
  "onSubmit this w = w\<lparr>calls := calls w @ [Called_onSubmit this]\<rparr>"

text \<open>
  Modelled from the spec: \<^verbatim>\<open>AbstractDialog._onCancel\<close>, reached as \<^verbatim>\<open>super._onCancel()\<close>
  and not part of the sources at hand. The spec says that cancel delegates to the inherited
  cancel handler; the call is recorded.
\<close>

definition super_onCancel :: "inst \<Rightarrow> world \<Rightarrow> world" where
  "super_onCancel this w = w\<lparr>calls := calls w @ [Called_onCancel this]\<rparr>"

text \<open>
  \<^verbatim>\<open>
  updateButtonFocus() {
      if (this._dialogElement) {
          if (this._dialogElement.contains(document.activeElement)) { return; }
          let buttonToFocus;
          if (this.props.okDisabled) {
              buttonToFocus = this._dialogElement.querySelector(`[id=${CANCEL_BUTTON_ID}]`);
          } else {
              buttonToFocus = this._dialogElement.querySelector(`[id=${OK_BUTTON_ID}]`);
          }
          if (buttonToFocus) { buttonToFocus.focus(); }
      }
  }
  \<close>
\<close>

definition updateButtonFocus :: "dialog \<Rightarrow> world \<Rightarrow> world" where
  "updateButtonFocus this w =
     (case dialogElement this of
        None \<Rightarrow> w
      | Some el \<Rightarrow>
          if contains el (activeElement w) then w
          else
            (let buttonToFocus =
                   (if okDisabled (props this) then querySelector el CANCEL_BUTTON_ID
                    else querySelector el OK_BUTTON_ID)
             in case buttonToFocus of None \<Rightarrow> w | Some b \<Rightarrow> focus b w))"

definition componentDidMount :: "dialog \<Rightarrow> world \<Rightarrow> world" where
  "componentDidMount this w = addEventListener (inst_of this) (updateButtonFocus this w)"

definition componentWillUnmount :: "dialog \<Rightarrow> world \<Rightarrow> world" where
  "componentWillUnmount this w = removeEventListener (inst_of this) w"

definition componentDidUpdate :: "dialog_props \<Rightarrow> dialog \<Rightarrow> world \<Rightarrow> world" where
  "componentDidUpdate prevProps this w =
     (if okDisabled prevProps \<noteq> okDisabled (props this)
         \<or> cancelDisabled prevProps \<noteq> cancelDisabled (props this)
      then updateButtonFocus this w else w)"

text \<open>
  \<^verbatim>\<open>
  _onKeyDown(e) {
      const enterKeyCode = 13;
      if (e.key === enterKeyCode) { this._onSubmit(); }
  }
  \<close>
  The method reads no field of \<^verbatim>\<open>this\<close>, so it is given the number of the instance.
\<close>

definition enterKeyCode :: jsval where
  "enterKeyCode = JNum 13"

definition Dialog_onKeyDown :: "inst \<Rightarrow> keyboard_event \<Rightarrow> world \<Rightarrow> world" where
  "Dialog_onKeyDown this e w = (if strict_eq (key e) enterKeyCode then onSubmit this w else w)"

definition setDialogElement :: "element option \<Rightarrow> dialog \<Rightarrow> dialog" where
  "setDialogElement el this = this\<lparr>dialogElement := el\<rparr>"

text \<open>
  \<^verbatim>\<open>
  _onCancel() {
      if (this.props.isModal) { return; }
      super._onCancel();
  }
  \<close>
\<close>

definition Dialog_onCancel :: "dialog \<Rightarrow> world \<Rightarrow> world" where
  "Dialog_onCancel this w = (if isModal (props this) then w else super_onCancel (inst_of this) w)"

text \<open>
  What \<^verbatim>\<open>render\<close> hands to the toolkit: the two buttons, and the modal dialog with its
  handlers. A handler is one of the two methods of \<^verbatim>\<open>this\<close> that the component passes on.
  The body of the dialog (\<^verbatim>\<open>this.props.children\<close>) and the markup around it belong to
  the toolkit and are left out.
\<close>

datatype callback = This_onCancel | This_onSubmit

record AKButton =
  appearance :: string
  form :: "string option"
  button_id :: string
  isDisabled :: "bool option"
  onClick :: callback
  label :: string

record ModalDialog =
  footer :: "AKButton option list"
  header :: string
  isOpen :: bool
  onDialogDismissed :: callback
  modal_width :: string
  form_onSubmit :: callback

text \<open>\<^verbatim>\<open>x || d\<close> on an optional string: the empty string is falsy as well.\<close>

definition or_default :: "string option \<Rightarrow> string \<Rightarrow> string" where
  "or_default x d = (case x of None \<Rightarrow> d | Some s \<Rightarrow> (if s = [] then d else s))"

text \<open>
  \<^verbatim>\<open>
  _renderCancelButton() {
      if (this.props.cancelDisabled || this.props.isModal) { return null; }
      return (<AKButton appearance = 'subtle' id = { CANCEL_BUTTON_ID }
                  onClick = { this._onCancel }>
                  { this.props.t(this.props.cancelTitleKey || 'dialog.Cancel') }
              </AKButton>);
  }
  \<close>
\<close>

definition Dialog_renderCancelButton :: "dialog \<Rightarrow> AKButton option" where
  "Dialog_renderCancelButton this =
     (if cancelDisabled (props this) \<or> isModal (props this) then None
      else Some \<lparr>appearance = ''subtle'', form = None, button_id = CANCEL_BUTTON_ID,
                 isDisabled = None, onClick = This_onCancel,
                 label = t (props this)
                   (Some (or_default (cancelTitleKey (props this)) ''dialog.Cancel''))\<rparr>)"

text \<open>
  \<^verbatim>\<open>
  _renderOKButton() {
      if (this.props.okDisabled) { return null; }
      return (<AKButton appearance = 'primary' form = 'modal-dialog-form' id = { OK_BUTTON_ID }
                  isDisabled = { this.props.okDisabled } onClick = { this._onSubmit }>
                  { this.props.t(this.props.okTitleKey || 'dialog.Ok') }
              </AKButton>);
  }
  \<close>
\<close>

definition Dialog_renderOKButton :: "dialog \<Rightarrow> AKButton option" where
  "Dialog_renderOKButton this =
     (if okDisabled (props this) then None
      else Some \<lparr>appearance = ''primary'', form = Some ''modal-dialog-form'',
                 button_id = OK_BUTTON_ID, isDisabled = Some (okDisabled (props this)),
                 onClick = This_onSubmit,
                 label = t (props this)
                   (Some (or_default (okTitleKey (props this)) ''dialog.Ok''))\<rparr>)"

definition Dialog_renderFooter :: "dialog \<Rightarrow> AKButton option list" where
  "Dialog_renderFooter this = [Dialog_renderCancelButton this, Dialog_renderOKButton this]"

definition Dialog_renderHeader :: "dialog \<Rightarrow> string" where
  "Dialog_renderHeader this =
     (case titleString (props this) of
        None \<Rightarrow> t (props this) (titleKey (props this))
      | Some s \<Rightarrow> (if s = [] then t (props this) (titleKey (props this)) else s))"

definition render :: "dialog \<Rightarrow> ModalDialog" where
  "render this =
     \<lparr>footer = Dialog_renderFooter this,
      header = Dialog_renderHeader this,
      isOpen = True,
      onDialogDismissed = This_onCancel,
      modal_width = or_default (width (props this)) ''medium'',
      form_onSubmit = This_onSubmit\<rparr>"

text \<open>Calling a handler that \<^verbatim>\<open>render\<close> passed on: a click, a dismissal, a form submission.\<close>

fun invoke :: "callback \<Rightarrow> dialog \<Rightarrow> world \<Rightarrow> world" where
  "invoke This_onCancel this w = Dialog_onCancel this w"
| "invoke This_onSubmit this w = onSubmit (inst_of this) w"

text \<open>
  The browser hands a key-down event on the document to the registered listeners, in the
  order of their registration.
\<close>

definition dispatch_keydown :: "keyboard_event \<Rightarrow> world \<Rightarrow> world" where
  "dispatch_keydown e w = fold (\<lambda>l. Dialog_onKeyDown l e) (keydown_listeners w) w"

text \<open>The calls of the inherited submit handler made for one instance.\<close>

definition submits_of :: "inst \<Rightarrow> world \<Rightarrow> inherited_call list" where
  "submits_of i w = filter (\<lambda>c. c = Called_onSubmit i) (calls w)"

section \<open>Concrete inputs\<close>

text \<open>
  The key-down event of the Enter key as a browser makes it: \<^verbatim>\<open>key\<close> is the string
  \<^verbatim>\<open>"Enter"\<close>, \<^verbatim>\<open>keyCode\<close> the number 13.
\<close>

definition enter_keydown :: keyboard_event where
  "enter_keydown = \<lparr>key = JStr ''Enter'', keyCode = JNum 13\<rparr>"

definition idle_world :: world where
  "idle_world = \<lparr>activeElement = None, keydown_listeners = [], calls = []\<rparr>"

text \<open>
  A rendered dialog: the wrapping element 1 holds the form 2 with an input 3, and the
  footer 4 with the cancel button 5 and the confirm button 6.
\<close>

definition dialog_tree :: element where
  "dialog_tree =
     Element 1 None False
       [Element 2 (Some ''modal-dialog-form'') False [Element 3 None True []],
        Element 4 None False
          [Element 5 (Some ''modal-dialog-cancel-button'') True [],
           Element 6 (Some ''modal-dialog-ok-button'') True []]]"

definition plain_props :: dialog_props where
  "plain_props =
     \<lparr>okDisabled = False, cancelDisabled = False, isModal = False,
      cancelTitleKey = None, okTitleKey = None, titleKey = Some ''dialog.title'',
      titleString = None, width = None,
      t = (\<lambda>k. case k of None \<Rightarrow> [] | Some s \<Rightarrow> s)\<rparr>"

definition plain_dialog :: dialog where
  "plain_dialog = \<lparr>inst_of = 7, props = plain_props, dialogElement = Some dialog_tree\<rparr>"

text \<open>
  A key-down event made by a script, its \<^verbatim>\<open>key\<close> set to the number 13, and a document
  on which the instances 7 and 8 are mounted.
\<close>

definition scripted_keydown :: keyboard_event where
  "scripted_keydown = \<lparr>key = JNum 13, keyCode = JNum 13\<rparr>"

definition two_mounted :: world where
  "two_mounted = \<lparr>activeElement = None, keydown_listeners = [7, 8], calls = []\<rparr>"

definition modal_dialog :: dialog where
  "modal_dialog = plain_dialog\<lparr>props := plain_props\<lparr>isModal := True\<rparr>\<rparr>"

definition ok_disabled_dialog :: dialog where
  "ok_disabled_dialog = plain_dialog\<lparr>props := plain_props\<lparr>okDisabled := True\<rparr>\<rparr>"

section \<open>Properties of the reducer\<close>

lemma reducer_on_other:
  assumes "state \<noteq> JUndefined"
    and "get h action (KStr ''type'') = Inr ty"
    and "ty \<noteq> SET_DEVICE_SELECTION_POPUP"
  shows "reducer h state action = Inr (h, state)"
  using assms by (simp add: reducer_def default_state_def strict_eq_def)

lemma reducer_on_set:
  assumes "state \<noteq> JUndefined"
    and "get h action (KStr ''type'') = Inr SET_DEVICE_SELECTION_POPUP"
    and "get h action (KStr ''popupDialog'') = Inr r"
  shows "reducer h state action =
     Inr (fst (alloc h ((own_props h state)(KStr ''popupDialog'' \<mapsto> r))), JRef (next_addr h))"
  using assms by (simp add: reducer_def default_state_def strict_eq_def alloc_def)

lemma reducer_on_set_absent:
  assumes "valid h action"
    and "get h action (KStr ''type'') = Inr SET_DEVICE_SELECTION_POPUP"
    and "get h action (KStr ''popupDialog'') = Inr r"
  shows "reducer h JUndefined action =
     Inr (fst (alloc (fst (alloc h Map.empty)) [KStr ''popupDialog'' \<mapsto> r]),
          JRef (Suc (next_addr h)))"
  using assms
  by (cases action) (simp_all add: reducer_def default_state_def strict_eq_def alloc_def)

text \<open>The one way the reducer throws: an action that is \<^verbatim>\<open>undefined\<close> or \<^verbatim>\<open>null\<close>.\<close>

lemma reducer_throws_iff:
  "(reducer h state action = Inl TypeError) = (action = JUndefined \<or> action = JNull)"
  by (cases action)
    (simp_all add: reducer_def default_state_def strict_eq_def alloc_def split: sum.splits)

lemma the_symbol_is_no_string:
  "SET_DEVICE_SELECTION_POPUP \<noteq> JStr s"
  by (simp add: SET_DEVICE_SELECTION_POPUP_def)

lemma heap1_state: "JRef 0 \<noteq> JUndefined"
  by simp

lemma heap1_set_action:
  "valid heap1 (JRef 2)"
  "get heap1 (JRef 2) (KStr ''type'') = Inr SET_DEVICE_SELECTION_POPUP"
  "get heap1 (JRef 2) (KStr ''popupDialog'') = Inr (JRef 1)"
  by (simp_all add: heap1_def)

lemma heap1_string_action:
  "get heap1 (JRef 3) (KStr ''type'') = Inr (JStr ''SET_DEVICE_SELECTION_POPUP'')"
  "get heap1 (JRef 3) (KStr ''popupDialog'') = Inr (JRef 1)"
  by (simp_all add: heap1_def)

lemma heap1_other_action:
  "get heap1 (JRef 5) (KStr ''type'') = Inr (JStr ''SOME_OTHER_ACTION'')"
  by (simp add: heap1_def)

text \<open>
  C2. For every state \<open>s\<close> and every action whose type is not the set-popup action type,
  the reducer returns \<open>s\<close> itself: the same value, hence for an object the same address,
  and the store is left as it was. A state is a value that is present: for the absent
  state \<^verbatim>\<open>undefined\<close> the default parameter makes a new empty object first.
\<close>

theorem other_action_returns_same_state:
  assumes "state \<noteq> JUndefined"
    and "get h action (KStr ''type'') = Inr ty"
    and "ty \<noteq> SET_DEVICE_SELECTION_POPUP"
  shows "reducer h state action = Inr (h, state)"
  using assms by (rule reducer_on_other)

theorem other_action_returns_same_state_witness:
  "JRef 0 \<noteq> JUndefined
   \<and> get heap1 (JRef 5) (KStr ''type'') = Inr (JStr ''SOME_OTHER_ACTION'')
   \<and> JStr ''SOME_OTHER_ACTION'' \<noteq> SET_DEVICE_SELECTION_POPUP
   \<and> reducer heap1 (JRef 0) (JRef 5) = Inr (heap1, JRef 0)"
proof -
  have ne: "JStr ''SOME_OTHER_ACTION'' \<noteq> SET_DEVICE_SELECTION_POPUP"
    using the_symbol_is_no_string [of "''SOME_OTHER_ACTION''"] by simp
  from other_action_returns_same_state [OF heap1_state heap1_other_action ne]
    heap1_other_action ne
  show ?thesis by simp
qed

text \<open>
  C3. For every state \<open>s\<close> and every carried reference \<open>r\<close>, reducing \<open>s\<close> with a set-popup
  action carrying \<open>r\<close> gives a state whose \<^verbatim>\<open>popupDialog\<close> field is \<open>r\<close>, while every other
  field of the result is the corresponding field of \<open>s\<close>: present exactly when it is
  present in \<open>s\<close>, and then the same value (for an object, the same address).
\<close>

theorem set_popup_replaces_only_popupDialog:
  assumes "valid h action"
    and "get h action (KStr ''type'') = Inr SET_DEVICE_SELECTION_POPUP"
    and "get h action (KStr ''popupDialog'') = Inr r"
  shows "\<exists>h' a'. reducer h state action = Inr (h', JRef a')
           \<and> get h' (JRef a') (KStr ''popupDialog'') = Inr r
           \<and> (\<forall>k. k \<noteq> KStr ''popupDialog'' \<longrightarrow> objs h' a' k = own_props h state k)"
proof (cases "state = JUndefined")
  case True
  show ?thesis
    unfolding True reducer_on_set_absent [OF assms]
    by (simp add: alloc_def)
next
  case False
  show ?thesis
    unfolding reducer_on_set [OF False assms(2,3)]
    by (simp add: alloc_def)
qed

theorem set_popup_replaces_only_popupDialog_witness:
  "valid heap1 (JRef 2)
   \<and> get heap1 (JRef 2) (KStr ''type'') = Inr SET_DEVICE_SELECTION_POPUP
   \<and> get heap1 (JRef 2) (KStr ''popupDialog'') = Inr (JRef 1)
   \<and> (\<exists>h' a'. reducer heap1 (JRef 0) (JRef 2) = Inr (h', JRef a')
         \<and> get h' (JRef a') (KStr ''popupDialog'') = Inr (JRef 1)
         \<and> KStr ''other'' \<noteq> KStr ''popupDialog''
         \<and> objs h' a' (KStr ''other'') = Some (JBool True))"
proof -
  from set_popup_replaces_only_popupDialog [OF heap1_set_action, of "JRef 0"]
  obtain h' a' where r: "reducer heap1 (JRef 0) (JRef 2) = Inr (h', JRef a')"
    and p: "get h' (JRef a') (KStr ''popupDialog'') = Inr (JRef 1)"
    and f: "\<forall>k. k \<noteq> KStr ''popupDialog'' \<longrightarrow> objs h' a' k = own_props heap1 (JRef 0) k"
    by blast
  from f have "objs h' a' (KStr ''other'') = own_props heap1 (JRef 0) (KStr ''other'')"
    by simp
  then have o: "objs h' a' (KStr ''other'') = Some (JBool True)"
    by (simp add: heap1_def)
  from r p o heap1_set_action show ?thesis by simp
qed

text \<open>
  C8. The reducer is total and never fails: for every input state, the absent one
  included, and every action object, it returns a state. An action object with no
  \<^verbatim>\<open>type\<close> field takes the identity branch: the state comes back unchanged, or the new
  empty object when the state was absent.
\<close>

theorem reducer_never_fails:
  assumes "a < next_addr h"
  shows "(\<exists>h' s'. reducer h state (JRef a) = Inr (h', s'))
       \<and> (objs h a (KStr ''type'') = None \<longrightarrow>
            reducer h state (JRef a) =
              Inr (if state = JUndefined then (fst (alloc h Map.empty), JRef (next_addr h))
                   else (h, state)))"
  using assms
  by (simp add: reducer_def default_state_def strict_eq_def alloc_def
      SET_DEVICE_SELECTION_POPUP_def)

theorem reducer_never_fails_witness:
  "4 < next_addr heap1
   \<and> objs heap1 4 (KStr ''type'') = None
   \<and> reducer heap1 (JRef 0) (JRef 4) = Inr (heap1, JRef 0)
   \<and> reducer heap1 JUndefined (JRef 4) = Inr (fst (alloc heap1 Map.empty), JRef 6)"
proof -
  have v: "4 < next_addr heap1" by (simp add: heap1_def)
  have n: "objs heap1 4 (KStr ''type'') = None" by (simp add: heap1_def)
  have x: "next_addr heap1 = 6" by (simp add: heap1_def)
  from reducer_never_fails [OF v, of "JRef 0"] reducer_never_fails [OF v, of JUndefined] v n x
  show ?thesis by simp
qed

text \<open>
  C9, as the specification words it: an action whose type field is the string
  \<^verbatim>\<open>"SET_DEVICE_SELECTION_POPUP"\<close> triggers the update of \<^verbatim>\<open>popupDialog\<close>. It does not: the
  reducer returns the state it was given, whose \<^verbatim>\<open>popupDialog\<close> is still \<^verbatim>\<open>undefined\<close>.
\<close>

theorem string_type_is_ignored:
  "get heap1 (JRef 3) (KStr ''type'') = Inr (JStr ''SET_DEVICE_SELECTION_POPUP'')
   \<and> get heap1 (JRef 3) (KStr ''popupDialog'') = Inr (JRef 1)
   \<and> reducer heap1 (JRef 0) (JRef 3) = Inr (heap1, JRef 0)
   \<and> get heap1 (JRef 0) (KStr ''popupDialog'') = Inr JUndefined"
proof -
  have "reducer heap1 (JRef 0) (JRef 3) = Inr (heap1, JRef 0)"
    using reducer_on_other [OF heap1_state heap1_string_action(1) the_symbol_is_no_string [symmetric]]
    by simp
  moreover have "get heap1 (JRef 0) (KStr ''popupDialog'') = Inr JUndefined"
    by (simp add: heap1_def)
  ultimately show ?thesis using heap1_string_action by simp
qed

text \<open>
  C9, amended. The only action that changes the state is the one whose type field is the
  symbol \<open>SET_DEVICE_SELECTION_POPUP\<close> that the module of action types exports: for every
  present state, an action with that symbol as its type gives a new object with
  \<^verbatim>\<open>popupDialog\<close> replaced, and an action with any other type value gives the state back.
  The string \<^verbatim>\<open>"SET_DEVICE_SELECTION_POPUP"\<close> is such another value.
\<close>

theorem only_the_symbol_sets_popup:
  assumes "state \<noteq> JUndefined"
    and "get h action (KStr ''type'') = Inr ty"
    and "get h action (KStr ''popupDialog'') = Inr r"
  shows "reducer h state action =
           (if ty = SET_DEVICE_SELECTION_POPUP
            then Inr (fst (alloc h ((own_props h state)(KStr ''popupDialog'' \<mapsto> r))),
                      JRef (next_addr h))
            else Inr (h, state))
       \<and> SET_DEVICE_SELECTION_POPUP \<noteq> JStr ''SET_DEVICE_SELECTION_POPUP''"
proof (cases "ty = SET_DEVICE_SELECTION_POPUP")
  case True
  with assms show ?thesis
    by (simp add: reducer_on_set the_symbol_is_no_string)
next
  case False
  with assms show ?thesis
    by (simp add: reducer_on_other the_symbol_is_no_string)
qed

theorem only_the_symbol_sets_popup_witness:
  "JRef 0 \<noteq> JUndefined
   \<and> get heap1 (JRef 2) (KStr ''type'') = Inr SET_DEVICE_SELECTION_POPUP
   \<and> get heap1 (JRef 2) (KStr ''popupDialog'') = Inr (JRef 1)
   \<and> reducer heap1 (JRef 0) (JRef 2) =
       Inr (fst (alloc heap1 ((own_props heap1 (JRef 0))(KStr ''popupDialog'' \<mapsto> JRef 1))),
            JRef (next_addr heap1))
   \<and> get heap1 (JRef 3) (KStr ''type'') = Inr (JStr ''SET_DEVICE_SELECTION_POPUP'')
   \<and> get heap1 (JRef 3) (KStr ''popupDialog'') = Inr (JRef 1)
   \<and> reducer heap1 (JRef 0) (JRef 3) = Inr (heap1, JRef 0)"
proof -
  from only_the_symbol_sets_popup [OF heap1_state heap1_set_action(2,3)]
  have a: "reducer heap1 (JRef 0) (JRef 2) =
       Inr (fst (alloc heap1 ((own_props heap1 (JRef 0))(KStr ''popupDialog'' \<mapsto> JRef 1))),
            JRef (next_addr heap1))"
    by simp
  from only_the_symbol_sets_popup [OF heap1_state heap1_string_action]
  have b: "reducer heap1 (JRef 0) (JRef 3) = Inr (heap1, JRef 0)"
    by (simp add: the_symbol_is_no_string [symmetric])
  from a b heap1_set_action heap1_string_action show ?thesis by simp
qed

text \<open>
  C10. For every state and every set-popup action the reducer returns a newly made
  object: its address was not in use before the call and is in use after it, every object
  that was in the store is left as it was, and so the result differs by reference from
  the state, even when the carried reference is the one the state already holds.
  Reducing the same action once more makes another new object in the same way, with the
  same fields as the first result.
\<close>

theorem set_popup_allocates_fresh_state:
  assumes "valid h state" and "valid h action"
    and "get h action (KStr ''type'') = Inr SET_DEVICE_SELECTION_POPUP"
  shows "\<exists>h1 s1 h2 s2.
           reducer h state action = Inr (h1, JRef s1) \<and> JRef s1 \<noteq> state
         \<and> \<not> valid h (JRef s1) \<and> valid h1 (JRef s1)
         \<and> (\<forall>a. a < next_addr h \<longrightarrow> objs h1 a = objs h a)
         \<and> reducer h1 (JRef s1) action = Inr (h2, JRef s2) \<and> s2 \<noteq> s1
         \<and> \<not> valid h1 (JRef s2) \<and> valid h2 (JRef s2)
         \<and> (\<forall>a. a < next_addr h1 \<longrightarrow> objs h2 a = objs h1 a)
         \<and> objs h2 s2 = objs h2 s1"
proof -
  from assms(3) obtain a where act: "action = JRef a"
    by (cases action) (simp_all add: SET_DEVICE_SELECTION_POPUP_def)
  with assms(2) have a: "a < next_addr h" by simp
  show ?thesis
  proof (cases "state = JUndefined")
    case True
    with act a assms(3) show ?thesis
      by (simp add: reducer_def default_state_def strict_eq_def alloc_def)
  next
    case False
    with act a assms(1,3) show ?thesis
      by (cases state) (auto simp add: reducer_def default_state_def strict_eq_def alloc_def)
  qed
qed

theorem set_popup_allocates_fresh_state_witness:
  "valid heap1 (JRef 0) \<and> valid heap1 (JRef 2)
   \<and> get heap1 (JRef 2) (KStr ''type'') = Inr SET_DEVICE_SELECTION_POPUP
   \<and> (\<exists>h1 s1 h2 s2.
           reducer heap1 (JRef 0) (JRef 2) = Inr (h1, JRef s1) \<and> JRef s1 \<noteq> JRef 0
         \<and> \<not> valid heap1 (JRef s1) \<and> valid h1 (JRef s1)
         \<and> objs h1 0 = objs heap1 0 \<and> objs h1 1 = objs heap1 1
         \<and> reducer h1 (JRef s1) (JRef 2) = Inr (h2, JRef s2) \<and> s2 \<noteq> s1
         \<and> \<not> valid h1 (JRef s2) \<and> valid h2 (JRef s2)
         \<and> objs h2 s2 = objs h2 s1)"
proof -
  have v: "valid heap1 (JRef 0)" by (simp add: heap1_def)
  have n: "(0::nat) < next_addr heap1" "(1::nat) < next_addr heap1"
    by (simp_all add: heap1_def)
  from set_popup_allocates_fresh_state [OF v heap1_set_action(1,2)]
  obtain h1 s1 h2 s2 where
    r: "reducer heap1 (JRef 0) (JRef 2) = Inr (h1, JRef s1)" "JRef s1 \<noteq> JRef 0"
      "\<not> valid heap1 (JRef s1)" "valid h1 (JRef s1)"
      "reducer h1 (JRef s1) (JRef 2) = Inr (h2, JRef s2)" "s2 \<noteq> s1"
      "\<not> valid h1 (JRef s2)" "valid h2 (JRef s2)" "objs h2 s2 = objs h2 s1"
    and old: "\<forall>a. a < next_addr heap1 \<longrightarrow> objs h1 a = objs heap1 a"
    by blast
  from old n have o: "objs h1 0 = objs heap1 0" "objs h1 1 = objs heap1 1"
    by blast+
  from r o v heap1_set_action show ?thesis by blast
qed

section \<open>Properties of the Dialog component\<close>

subsection \<open>Focus\<close>

lemma querySelector_inside:
  assumes "querySelector el ident = Some b"
  shows "contains el (Some (node_of b))"
proof -
  from assms have "b \<in> set (descendants el)"
    by (auto simp add: querySelector_def find_Some_iff)
  then show ?thesis by (simp add: contains_def)
qed

lemma updateButtonFocus_listeners [simp]:
  "keydown_listeners (updateButtonFocus this w) = keydown_listeners w"
  by (simp add: updateButtonFocus_def focus_def Let_def split: option.splits)

lemma updateButtonFocus_calls [simp]:
  "calls (updateButtonFocus this w) = calls w"
  by (simp add: updateButtonFocus_def focus_def Let_def split: option.splits)

text \<open>Running the focus assignment a second time changes nothing.\<close>

lemma updateButtonFocus_twice:
  "updateButtonFocus this (updateButtonFocus this w) = updateButtonFocus this w"
proof (cases "dialogElement this")
  case None
  then show ?thesis by (simp add: updateButtonFocus_def)
next
  case (Some el)
  show ?thesis
  proof (cases "contains el (activeElement w)")
    case True
    with Some show ?thesis by (simp add: updateButtonFocus_def)
  next
    case False
    let ?q = "if okDisabled (props this) then querySelector el CANCEL_BUTTON_ID
              else querySelector el OK_BUTTON_ID"
    show ?thesis
    proof (cases ?q)
      case None
      with Some False show ?thesis by (simp add: updateButtonFocus_def)
    next
      case (Some b)
      then have "contains el (Some (node_of b))"
        by (auto split: if_splits intro: querySelector_inside)
      with Some \<open>dialogElement this = Some el\<close> False show ?thesis
        by (simp add: updateButtonFocus_def focus_def)
    qed
  qed
qed

lemma tree_lookups:
  "querySelector dialog_tree OK_BUTTON_ID
     = Some (Element 6 (Some ''modal-dialog-ok-button'') True [])"
  "querySelector dialog_tree CANCEL_BUTTON_ID
     = Some (Element 5 (Some ''modal-dialog-cancel-button'') True [])"
  "\<not> contains dialog_tree None"
  "contains dialog_tree (Some 3)"
  by (simp_all add: querySelector_def dialog_tree_def OK_BUTTON_ID_def CANCEL_BUTTON_ID_def
      contains_def)

text \<open>
  C5. When the focus assignment runs and the dialog does not contain the focused element,
  the control looked up is the confirm control if the confirm action is enabled
  (\<^verbatim>\<open>okDisabled\<close> false), whatever \<^verbatim>\<open>cancelDisabled\<close> says, and the cancel control if the
  confirm action is disabled; the control found is given the focus, and if there is no
  such control nothing is focused.
\<close>

theorem focus_prefers_confirm_then_cancel:
  assumes "dialogElement this = Some el" and "\<not> contains el (activeElement w)"
  shows "updateButtonFocus this w =
           (case querySelector el
                   (if okDisabled (props this) then CANCEL_BUTTON_ID else OK_BUTTON_ID) of
              None \<Rightarrow> w
            | Some b \<Rightarrow> focus b w)"
  using assms by (simp add: updateButtonFocus_def)

theorem focus_prefers_confirm_then_cancel_witness:
  "dialogElement plain_dialog = Some dialog_tree
   \<and> dialogElement ok_disabled_dialog = Some dialog_tree
   \<and> \<not> contains dialog_tree (activeElement idle_world)
   \<and> activeElement (updateButtonFocus plain_dialog idle_world) = Some 6
   \<and> activeElement (updateButtonFocus ok_disabled_dialog idle_world) = Some 5"
proof -
  have a: "dialogElement plain_dialog = Some dialog_tree"
    by (simp add: plain_dialog_def)
  have b: "dialogElement ok_disabled_dialog = Some dialog_tree"
    by (simp add: ok_disabled_dialog_def plain_dialog_def)
  have c: "\<not> contains dialog_tree (activeElement idle_world)"
    by (simp add: idle_world_def tree_lookups)
  have d: "\<not> okDisabled (props plain_dialog)" "okDisabled (props ok_disabled_dialog)"
    by (simp_all add: ok_disabled_dialog_def plain_dialog_def plain_props_def)
  from focus_prefers_confirm_then_cancel [OF a c] d
  have e: "activeElement (updateButtonFocus plain_dialog idle_world) = Some 6"
    by (simp add: tree_lookups focus_def)
  from focus_prefers_confirm_then_cancel [OF b c] d
  have f: "activeElement (updateButtonFocus ok_disabled_dialog idle_world) = Some 5"
    by (simp add: tree_lookups focus_def)
  from a b c e f show ?thesis by simp
qed

text \<open>
  C7. Whenever the focus assignment runs while the focused element lies inside the dialog
  element, nothing changes: no control is focused, and the focus the user chose stays.
\<close>

theorem focus_inside_dialog_is_kept:
  assumes "dialogElement this = Some el" and "contains el (activeElement w)"
  shows "updateButtonFocus this w = w"
  using assms by (simp add: updateButtonFocus_def)

theorem focus_inside_dialog_is_kept_witness:
  "dialogElement plain_dialog = Some dialog_tree
   \<and> contains dialog_tree (activeElement (idle_world\<lparr>activeElement := Some 3\<rparr>))
   \<and> updateButtonFocus plain_dialog (idle_world\<lparr>activeElement := Some 3\<rparr>)
       = idle_world\<lparr>activeElement := Some 3\<rparr>"
proof -
  have a: "dialogElement plain_dialog = Some dialog_tree"
    by (simp add: plain_dialog_def)
  have b: "contains dialog_tree (activeElement (idle_world\<lparr>activeElement := Some 3\<rparr>))"
    by (simp add: tree_lookups)
  from focus_inside_dialog_is_kept [OF a b] a b show ?thesis by simp
qed

subsection \<open>Cancelling\<close>

text \<open>
  C4. Whenever \<^verbatim>\<open>isModal\<close> is true, the cancel control is not rendered (its renderer
  returns nothing, and the footer holds nothing in its place), and a request to cancel or
  dismiss, which reaches the component through \<^verbatim>\<open>_onCancel\<close>, does nothing: the inherited
  cancel handler is not called and the world stays as it was.
\<close>

theorem modal_ignores_cancel:
  assumes "isModal (props this)"
  shows "Dialog_renderCancelButton this = None
       \<and> footer (render this) = [None, Dialog_renderOKButton this]
       \<and> Dialog_onCancel this w = w
       \<and> invoke (onDialogDismissed (render this)) this w = w"
  using assms
  by (simp add: Dialog_renderCancelButton_def render_def Dialog_renderFooter_def
      Dialog_onCancel_def)

theorem modal_ignores_cancel_witness:
  "isModal (props modal_dialog)
   \<and> Dialog_renderCancelButton modal_dialog = None
   \<and> Dialog_onCancel modal_dialog idle_world = idle_world
   \<and> invoke (onDialogDismissed (render modal_dialog)) modal_dialog idle_world = idle_world"
proof -
  have m: "isModal (props modal_dialog)"
    by (simp add: modal_dialog_def plain_dialog_def)
  from modal_ignores_cancel [OF m, of idle_world] m show ?thesis by simp
qed

text \<open>Without \<^verbatim>\<open>isModal\<close> the same request reaches the inherited handler.\<close>

lemma Dialog_onCancel_not_modal:
  "\<not> isModal (props this) \<Longrightarrow>
     calls (Dialog_onCancel this w) = calls w @ [Called_onCancel (inst_of this)]"
  by (simp add: Dialog_onCancel_def super_onCancel_def)

subsection \<open>Keys\<close>

lemma Dialog_onKeyDown_listeners [simp]:
  "keydown_listeners (Dialog_onKeyDown l e w) = keydown_listeners w"
  by (simp add: Dialog_onKeyDown_def onSubmit_def)

lemma Dialog_onKeyDown_other:
  "l \<noteq> i \<Longrightarrow> submits_of i (Dialog_onKeyDown l e w) = submits_of i w"
  by (simp add: Dialog_onKeyDown_def onSubmit_def submits_of_def)

text \<open>The handler submits exactly when \<^verbatim>\<open>key\<close> is the number 13, so never for a string.\<close>

lemma Dialog_onKeyDown_cases:
  "Dialog_onKeyDown l e w = (if key e = JNum 13 then onSubmit l w else w)"
  by (simp add: Dialog_onKeyDown_def strict_eq_def enterKeyCode_def)

lemma Dialog_onKeyDown_string_key:
  "key e = JStr s \<Longrightarrow> Dialog_onKeyDown l e w = w"
  by (simp add: Dialog_onKeyDown_cases)

lemma fold_onKeyDown_listeners:
  "keydown_listeners (fold (\<lambda>l. Dialog_onKeyDown l e) ls w) = keydown_listeners w"
  by (induction ls arbitrary: w) simp_all

lemma fold_onKeyDown_submits:
  "i \<notin> set ls \<Longrightarrow> submits_of i (fold (\<lambda>l. Dialog_onKeyDown l e) ls w) = submits_of i w"
  by (induction ls arbitrary: w) (simp_all add: Dialog_onKeyDown_other)

lemma dispatch_keydown_listeners [simp]:
  "keydown_listeners (dispatch_keydown e w) = keydown_listeners w"
  by (simp add: dispatch_keydown_def fold_onKeyDown_listeners)

lemma dispatch_keydown_submits:
  "i \<notin> set (keydown_listeners w) \<Longrightarrow> submits_of i (dispatch_keydown e w) = submits_of i w"
  by (simp add: dispatch_keydown_def fold_onKeyDown_submits)

lemma dispatch_all_submits:
  "i \<notin> set (keydown_listeners w) \<Longrightarrow>
     submits_of i (fold dispatch_keydown es w) = submits_of i w"
  by (induction es arbitrary: w) (simp_all add: dispatch_keydown_submits)

text \<open>The list of listeners never holds a listener twice.\<close>

lemma distinct_componentDidMount:
  "distinct (keydown_listeners w) \<Longrightarrow> distinct (keydown_listeners (componentDidMount this w))"
  by (simp add: componentDidMount_def addEventListener_def)

lemma distinct_componentWillUnmount:
  "distinct (keydown_listeners w) \<Longrightarrow>
     distinct (keydown_listeners (componentWillUnmount this w))"
  by (simp add: componentWillUnmount_def removeEventListener_def)

lemma mounted_after_componentDidMount:
  "inst_of this \<in> set (keydown_listeners (componentDidMount this w))"
  by (simp add: componentDidMount_def addEventListener_def)

lemma mounted_plain_dialog:
  "componentDidMount plain_dialog idle_world =
     \<lparr>activeElement = Some 6, keydown_listeners = [7], calls = []\<rparr>"
  by (simp add: componentDidMount_def plain_dialog_def idle_world_def updateButtonFocus_def
      tree_lookups plain_props_def focus_def addEventListener_def)

text \<open>
  C1. The claim: a key-down event of the Enter key, received while the dialog is mounted,
  makes the key handler submit, as activating the confirm control does. The code compares
  \<^verbatim>\<open>e.key\<close>, the string \<^verbatim>\<open>"Enter"\<close>, with the number 13: with the dialog mounted and its
  listener registered, the Enter event calls no handler, while the confirm control, whose
  \<^verbatim>\<open>onClick\<close> is \<^verbatim>\<open>_onSubmit\<close>, does call the submit handler.
\<close>

theorem enter_keydown_never_submits:
  "key enter_keydown = JStr ''Enter''
   \<and> keydown_listeners (componentDidMount plain_dialog idle_world) = [inst_of plain_dialog]
   \<and> calls (dispatch_keydown enter_keydown (componentDidMount plain_dialog idle_world)) = []
   \<and> map_option onClick (Dialog_renderOKButton plain_dialog) = Some This_onSubmit
   \<and> calls (invoke This_onSubmit plain_dialog (componentDidMount plain_dialog idle_world))
       = [Called_onSubmit (inst_of plain_dialog)]"
proof -
  have k: "key enter_keydown = JStr ''Enter''"
    by (simp add: enter_keydown_def)
  have l: "keydown_listeners (componentDidMount plain_dialog idle_world)
             = [inst_of plain_dialog]"
    unfolding mounted_plain_dialog by (simp add: plain_dialog_def)
  have d: "calls (dispatch_keydown enter_keydown (componentDidMount plain_dialog idle_world))
             = []"
    unfolding mounted_plain_dialog
    by (simp add: dispatch_keydown_def Dialog_onKeyDown_string_key [OF k])
  have b: "map_option onClick (Dialog_renderOKButton plain_dialog) = Some This_onSubmit"
    by (simp add: Dialog_renderOKButton_def plain_dialog_def plain_props_def)
  have c: "calls (invoke This_onSubmit plain_dialog (componentDidMount plain_dialog idle_world))
             = [Called_onSubmit (inst_of plain_dialog)]"
    unfolding mounted_plain_dialog by (simp add: onSubmit_def)
  from k l d b c show ?thesis by simp
qed

text \<open>
  C6. After the component has unmounted, its listener is no longer registered, and no
  sequence of later key-down events, whatever their keys, makes the component call the
  submit handler: the calls made for this instance are those made before.
\<close>

theorem unmounted_dialog_gets_no_keys:
  assumes "distinct (keydown_listeners w)"
  shows "inst_of this \<notin> set (keydown_listeners (componentWillUnmount this w))
       \<and> submits_of (inst_of this) (fold dispatch_keydown es (componentWillUnmount this w))
           = submits_of (inst_of this) w"
proof -
  let ?w = "componentWillUnmount this w"
  have gone: "inst_of this \<notin> set (keydown_listeners ?w)"
    using assms by (simp add: componentWillUnmount_def removeEventListener_def)
  have "submits_of (inst_of this) ?w = submits_of (inst_of this) w"
    by (simp add: componentWillUnmount_def removeEventListener_def submits_of_def)
  with gone dispatch_all_submits [OF gone, of es] show ?thesis by simp
qed

theorem unmounted_dialog_gets_no_keys_witness:
  "distinct (keydown_listeners two_mounted)
   \<and> keydown_listeners (componentWillUnmount plain_dialog two_mounted) = [8]
   \<and> submits_of 7 (fold dispatch_keydown [enter_keydown, scripted_keydown]
        (componentWillUnmount plain_dialog two_mounted)) = []
   \<and> calls (fold dispatch_keydown [enter_keydown, scripted_keydown]
        (componentWillUnmount plain_dialog two_mounted)) = [Called_onSubmit 8]"
proof -
  have d: "distinct (keydown_listeners two_mounted)"
    by (simp add: two_mounted_def)
  have i: "inst_of plain_dialog = 7"
    by (simp add: plain_dialog_def)
  have s: "submits_of 7 two_mounted = []"
    by (simp add: submits_of_def two_mounted_def)
  have u: "componentWillUnmount plain_dialog two_mounted
             = \<lparr>activeElement = None, keydown_listeners = [8], calls = []\<rparr>"
    by (simp add: componentWillUnmount_def removeEventListener_def two_mounted_def i)
  have c: "calls (fold dispatch_keydown [enter_keydown, scripted_keydown]
        (componentWillUnmount plain_dialog two_mounted)) = [Called_onSubmit 8]"
    unfolding u
    by (simp add: dispatch_keydown_def Dialog_onKeyDown_cases enter_keydown_def
        scripted_keydown_def onSubmit_def)
  from unmounted_dialog_gets_no_keys
         [OF d, of plain_dialog "[enter_keydown, scripted_keydown]"]
  have "submits_of 7 (fold dispatch_keydown [enter_keydown, scripted_keydown]
        (componentWillUnmount plain_dialog two_mounted)) = []"
    unfolding i s by simp
  with d u c show ?thesis by simp
qed

end
